theory Spec2Isabelle
  imports Main
begin

section \<open>Python values, exceptions and the libraries the module calls\<close>

text \<open>
  The module \<^verbatim>\<open>partd/numpy.py\<close> stores numpy arrays in a key-addressed byte store: the
  raw bytes of an array under its key, the text of its dtype under the key extended with
  \<^verbatim>\<open>.dtype\<close>.  Exceptions are values: a computation returns \<open>Inl e\<close> where the Python
  raises \<open>e\<close>.
\<close>

datatype error = IndexError | TypeError | NameError | ValueError | KeyNotFound

type_synonym bytes = string
type_synonym path = string

text \<open>
  A key is a Python object.  The module distinguishes instances of \<^verbatim>\<open>str\<close>, instances of
  \<^verbatim>\<open>tuple\<close> and everything else; \<open>'a\<close> is the type of the objects that are neither.
\<close>

datatype 'a pyobj = PyStr string | PyTuple "'a pyobj list" | PyOther 'a

text \<open>
  What the module takes from Python and from numpy, as functions of the model:
  \<^item> \<open>str_of x\<close> is \<^verbatim>\<open>str(x)\<close> and \<open>add_str x s\<close> is \<^verbatim>\<open>x + s\<close> for an object \<open>x\<close> that is
    neither a string nor a tuple; \<open>hashable x\<close> says whether \<open>x\<close> can be a dictionary key;
  \<^item> \<open>py_eval s\<close> is \<^verbatim>\<open>eval(s)\<close> in the namespace of the module;
  \<^item> \<open>np_dtype o\<close> is \<^verbatim>\<open>np.dtype(o)\<close> and \<open>render d\<close> is \<^verbatim>\<open>str(d)\<close> for a dtype \<open>d\<close>;
  \<^item> \<open>tobytes v\<close> is \<^verbatim>\<open>v.tobytes()\<close>, \<open>dtype_of v\<close> is \<^verbatim>\<open>v.dtype\<close> and
    \<open>frombuffer b d\<close> is \<^verbatim>\<open>np.frombuffer(b, d)\<close> for a dtype \<open>d\<close>.
\<close>

record ('a, 'd, 'v) python =
  str_of :: "'a \<Rightarrow> string"
  add_str :: "'a \<Rightarrow> string \<Rightarrow> error + 'a pyobj"
  hashable :: "'a \<Rightarrow> bool"
  py_eval :: "string \<Rightarrow> error + 'a pyobj"
  np_dtype :: "'a pyobj \<Rightarrow> error + 'd"
  render :: "'d \<Rightarrow> string"
  tobytes :: "'v \<Rightarrow> bytes"
  dtype_of :: "'v \<Rightarrow> 'd"
  frombuffer :: "bytes \<Rightarrow> 'd \<Rightarrow> error + 'v"

text \<open>
  Keyword options (\<^verbatim>\<open>**kwargs\<close>): the \<^verbatim>\<open>lock\<close> option, which the module reads and
  sets, is a field of its own (\<open>None\<close> when the caller did not pass it); \<open>rest\<close> holds
  every other option, which the module only passes on.
\<close>

record 'a kwargs =
  lock :: "bool option"
  rest :: "(string \<times> 'a pyobj) list"

text \<open>
  A call that reads or writes a store takes the state \<open>'s\<close> of the store and returns its
  result, or the exception it raised, with the state it left behind.
\<close>

type_synonym ('s, 'r) action = "'s \<Rightarrow> (error + 'r) \<times> 's"

text \<open>
  The functions of the byte store that the module is given or calls: \<^verbatim>\<open>get\<close> and \<^verbatim>\<open>put\<close>
  are parameters of the module's functions (\<^verbatim>\<open>get=core.get\<close>, \<^verbatim>\<open>put=core.put\<close>),
  \<^verbatim>\<open>core.ensure\<close> is called by name.
\<close>

type_synonym ('a, 's) store_get = "path \<Rightarrow> 'a pyobj list \<Rightarrow> 'a kwargs \<Rightarrow> ('s, bytes list) action"
type_synonym ('a, 's) store_put =
  "path \<Rightarrow> ('a pyobj \<times> bytes) list \<Rightarrow> 'a kwargs \<Rightarrow> ('s, unit) action"
type_synonym ('a, 's) store_ensure = "path \<Rightarrow> 'a pyobj \<Rightarrow> bytes \<Rightarrow> ('s, unit) action"

text \<open>
  The handle \<^verbatim>\<open>self.partd\<close> that a \<^verbatim>\<open>PartdNumpy\<close> object wraps, with the four methods
  the class calls on it: \<^verbatim>\<open>_iset\<close>, \<^verbatim>\<open>append\<close>, \<^verbatim>\<open>_get\<close> and \<^verbatim>\<open>delete\<close>.
\<close>

record ('a, 's) partd =
  partd_iset :: "'a pyobj \<Rightarrow> bytes \<Rightarrow> ('s, unit) action"
  partd_append :: "('a pyobj \<times> bytes) list \<Rightarrow> 'a kwargs \<Rightarrow> ('s, unit) action"
  partd_get :: "'a pyobj list \<Rightarrow> 'a kwargs \<Rightarrow> ('s, bytes list) action"
  partd_delete :: "'a pyobj list \<Rightarrow> 'a kwargs \<Rightarrow> ('s, unit) action"

text \<open>
  The state the module's functions run in: the dictionary of the \<^verbatim>\<open>memoize\<close> decorator
  on \<^verbatim>\<open>dtypes\<close>, a global of the process, and the state of the store.
\<close>

record ('a, 'd, 's) world =
  cache :: "(path \<times> 'a pyobj list) \<Rightarrow> 'd list option"
  store :: 's

text \<open>\<open>list(map(f, xs))\<close> where \<open>f\<close> may raise: the first exception ends the traversal.\<close>

fun map_err :: "('x \<Rightarrow> error + 'y) \<Rightarrow> 'x list \<Rightarrow> error + 'y list" where
  "map_err f [] = Inr []"
| "map_err f (x # xs) =
     (case f x of
        Inl e \<Rightarrow> Inl e
      | Inr y \<Rightarrow> (case map_err f xs of Inl e \<Rightarrow> Inl e | Inr ys \<Rightarrow> Inr (y # ys)))"

section \<open>Key extension\<close>

text \<open>
  \<^verbatim>\<open>
  def extend(key, term):
      if isinstance(key, str):
          return key + term
      elif isinstance(key, tuple):
          return key[:-1] + (extend(key[-1], term),)
      else:
          return extend(str(key), term)
  \<close>
  \<^verbatim>\<open>key[-1]\<close> raises IndexError on the empty tuple; \<^verbatim>\<open>key[:-1]\<close> is \<open>butlast\<close>.
\<close>

fun rank :: "'a pyobj \<Rightarrow> nat" where
  "rank (PyStr s) = 0"
| "rank (PyOther x) = 1"
| "rank (PyTuple ks) = Suc (Suc (sum_list (map rank ks)))"

function extend :: "('a, 'd, 'v) python \<Rightarrow> 'a pyobj \<Rightarrow> string \<Rightarrow> error + 'a pyobj" where
  "extend env (PyStr k) suffix = Inr (PyStr (k @ suffix))"
| "extend env (PyTuple ks) suffix =
     (if ks = [] then Inl IndexError
      else (case extend env (last ks) suffix of
              Inl e \<Rightarrow> Inl e
            | Inr k' \<Rightarrow> Inr (PyTuple (butlast ks @ [k']))))"
| "extend env (PyOther x) suffix = extend env (PyStr (str_of env x)) suffix"
  by pat_completeness auto
termination
proof (relation "measure (\<lambda>(env, k, suffix). rank k)")
  show "wf (measure (\<lambda>(env :: ('a, 'd, 'v) python, k :: 'a pyobj, suffix :: string). rank k))"
    by simp
next
  fix env :: "('a, 'd, 'v) python" and ks :: "'a pyobj list" and suffix :: string
  assume "ks \<noteq> []"
  then have "last ks \<in> set ks" by simp
  then have "rank (last ks) \<le> sum_list (map rank ks)"
    by (simp add: member_le_sum_list)
  then show "((env, last ks, suffix), (env, PyTuple ks, suffix))
      \<in> measure (\<lambda>(env, k, suffix). rank k)"
    by simp
next
  fix env :: "('a, 'd, 'v) python" and x :: 'a and suffix :: string
  show "((env, PyStr (str_of env x), suffix), (env, PyOther x, suffix))
      \<in> measure (\<lambda>(env, k, suffix). rank k)"
    by simp
qed

section \<open>The type descriptor codec\<close>

text \<open>
  \<^verbatim>\<open>
  def parse_dtype(s):
      if '[' in s:
          return np.dtype(eval(s))  # Dangerous!
      else:
          return np.dtype(s)
  \<close>
\<close>

definition parse_dtype :: "('a, 'd, 'v) python \<Rightarrow> string \<Rightarrow> error + 'd" where
  "parse_dtype env s =
     (if CHR ''['' \<in> set s
      then (case py_eval env s of Inl e \<Rightarrow> Inl e | Inr obj \<Rightarrow> np_dtype env obj)
      else np_dtype env (PyStr s))"

section \<open>The memoized metadata lookup\<close>

text \<open>
  \<^verbatim>\<open>
  @memoize(key=lambda args, kwargs: (args[0], tuple(args[1])))
  def dtypes(path, keys, get=core.get, lock=False, **kwargs):
      dt_keys = [extend(key, '.dtype') for key in keys]
      text = get(path, dt_keys, lock=lock, **kwargs)
      return list(map(parse_dtype, text))
  \<close>
  \<open>dtypes_body\<close> is the function under the decorator.
\<close>

definition dtypes_body ::
  "('a, 'd, 'v) python \<Rightarrow> path \<Rightarrow> 'a pyobj list \<Rightarrow> ('a, 's) store_get \<Rightarrow> bool \<Rightarrow>
     (string \<times> 'a pyobj) list \<Rightarrow> ('s, 'd list) action" where
  "dtypes_body env path keys get_fn lock_flag kw s =
     (case map_err (\<lambda>key. extend env key ''.dtype'') keys of
        Inl e \<Rightarrow> (Inl e, s)
      | Inr dt_keys \<Rightarrow>
          (case get_fn path dt_keys \<lparr>lock = Some lock_flag, rest = kw\<rparr> s of
             (Inl e, s') \<Rightarrow> (Inl e, s')
           | (Inr text, s') \<Rightarrow> (map_err (parse_dtype env) text, s')))"

text \<open>
  toolz's \<^verbatim>\<open>memoize\<close> computes the key \<^verbatim>\<open>(args[0], tuple(args[1]))\<close>, looks it up in its
  dictionary (TypeError when the key is not hashable), returns the stored value when there
  is one, and otherwise calls the function and stores what it returns; a call that raises
  stores nothing.  \<^verbatim>\<open>tuple(keys)\<close> makes a list and a tuple of the same keys the same
  key: in the model both are the list \<open>keys\<close>.  A path is a string, hence hashable.
\<close>

fun hashable_key :: "('a, 'd, 'v) python \<Rightarrow> 'a pyobj \<Rightarrow> bool" where
  "hashable_key env (PyStr s) = True"
| "hashable_key env (PyTuple ks) = list_all (hashable_key env) ks"
| "hashable_key env (PyOther x) = hashable env x"

definition dtypes ::
  "('a, 'd, 'v) python \<Rightarrow> path \<Rightarrow> 'a pyobj list \<Rightarrow> ('a, 's) store_get \<Rightarrow> bool \<Rightarrow>
     (string \<times> 'a pyobj) list \<Rightarrow> (('a, 'd, 's) world, 'd list) action" where
  "dtypes env path keys get_fn lock_flag kw w =
     (if \<not> list_all (hashable_key env) keys then (Inl TypeError, w)
      else (case cache w (path, keys) of
              Some ds \<Rightarrow> (Inr ds, w)
            | None \<Rightarrow>
                (case dtypes_body env path keys get_fn lock_flag kw (store w) of
                   (Inl e, s') \<Rightarrow> (Inl e, w\<lparr>store := s'\<rparr>)
                 | (Inr ds, s') \<Rightarrow>
                     (Inr ds, w\<lparr>cache := (cache w)((path, keys) \<mapsto> ds), store := s'\<rparr>))))"

section \<open>The bulk functions\<close>

text \<open>
  \<^verbatim>\<open>
  def put(path, data, put=core.put, **kwargs):
      bytes = dict((k, v.tobytes()) for k, v in data.items())
      put(path, bytes, **kwargs)
      for k, v in data.items():
          core.ensure(path, extend(k, '.dtype'), str(v.dtype))
  \<close>
  A dictionary is the list of its items, in the order of iteration.  \<open>ensure_loop\<close> is
  the \<^verbatim>\<open>for\<close> loop.
\<close>

fun ensure_loop ::
  "('a, 'd, 'v) python \<Rightarrow> ('a, 's) store_ensure \<Rightarrow> path \<Rightarrow> ('a pyobj \<times> 'v) list \<Rightarrow>
     ('s, unit) action" where
  "ensure_loop env core_ensure path [] s = (Inr (), s)"
| "ensure_loop env core_ensure path ((k, v) # items) s =
     (case extend env k ''.dtype'' of
        Inl e \<Rightarrow> (Inl e, s)
      | Inr dt_key \<Rightarrow>
          (case core_ensure path dt_key (render env (dtype_of env v)) s of
             (Inl e, s') \<Rightarrow> (Inl e, s')
           | (Inr u, s') \<Rightarrow> ensure_loop env core_ensure path items s'))"

definition put ::
  "('a, 'd, 'v) python \<Rightarrow> ('a, 's) store_ensure \<Rightarrow> path \<Rightarrow> ('a pyobj \<times> 'v) list \<Rightarrow>
     ('a, 's) store_put \<Rightarrow> 'a kwargs \<Rightarrow> ('s, unit) action" where
  "put env core_ensure path data put_fn kwargs s =
     (case put_fn path (map (\<lambda>(k, v). (k, tobytes env v)) data) kwargs s of
        (Inl e, s') \<Rightarrow> (Inl e, s')
      | (Inr u, s') \<Rightarrow> ensure_loop env core_ensure path data s')"

text \<open>
  \<^verbatim>\<open>
  def get(path, keys, get=core.get, **kwargs):
      bytes = get(path, keys, **kwargs)
      dts = dtypes(path, keys, get=get, **kwargs)
      return list(map(np.frombuffer, bytes, dts))
  \<close>
  \<^verbatim>\<open>dtypes\<close> takes \<^verbatim>\<open>lock\<close> from the options when the caller passed it, and its default
  \<^verbatim>\<open>False\<close> otherwise.  \<^verbatim>\<open>map\<close> over two sequences pairs them index by index.
\<close>

definition get ::
  "('a, 'd, 'v) python \<Rightarrow> path \<Rightarrow> 'a pyobj list \<Rightarrow> ('a, 's) store_get \<Rightarrow> 'a kwargs \<Rightarrow>
     (('a, 'd, 's) world, 'v list) action" where
  "get env path keys get_fn kwargs w =
     (case get_fn path keys kwargs (store w) of
        (Inl e, s') \<Rightarrow> (Inl e, w\<lparr>store := s'\<rparr>)
      | (Inr bytes, s') \<Rightarrow>
          (case dtypes env path keys get_fn (case lock kwargs of None \<Rightarrow> False | Some l \<Rightarrow> l)
                  (rest kwargs) (w\<lparr>store := s'\<rparr>) of
             (Inl e, w') \<Rightarrow> (Inl e, w')
           | (Inr dts, w') \<Rightarrow> (map_err (\<lambda>(b, d). frombuffer env b d) (zip bytes dts), w')))"

section \<open>The incremental object\<close>

text \<open>
  \<^verbatim>\<open>
  def append(self, data, **kwargs):
      for k, v in data.items():
          self.partd._iset(k + '.dtype', str(v.dtype))
      self.partd.append(valmap(np.ndarray.tobytes, data), **kwargs)
  \<close>
  \<^verbatim>\<open>k + '.dtype'\<close> is Python's \<^verbatim>\<open>+\<close>: concatenation on a string, TypeError on a tuple
  (a tuple and a string do not add), \<open>add_str\<close> on any other object.
\<close>

fun py_add :: "('a, 'd, 'v) python \<Rightarrow> 'a pyobj \<Rightarrow> string \<Rightarrow> error + 'a pyobj" where
  "py_add env (PyStr k) s = Inr (PyStr (k @ s))"
| "py_add env (PyTuple ks) s = Inl TypeError"
| "py_add env (PyOther x) s = add_str env x s"

fun iset_loop ::
  "('a, 'd, 'v) python \<Rightarrow> ('a, 's) partd \<Rightarrow> ('a pyobj \<times> 'v) list \<Rightarrow> ('s, unit) action" where
  "iset_loop env h [] s = (Inr (), s)"
| "iset_loop env h ((k, v) # items) s =
     (case py_add env k ''.dtype'' of
        Inl e \<Rightarrow> (Inl e, s)
      | Inr dt_key \<Rightarrow>
          (case partd_iset h dt_key (render env (dtype_of env v)) s of
             (Inl e, s') \<Rightarrow> (Inl e, s')
           | (Inr u, s') \<Rightarrow> iset_loop env h items s'))"

definition PartdNumpy_append ::
  "('a, 'd, 'v) python \<Rightarrow> ('a, 's) partd \<Rightarrow> ('a pyobj \<times> 'v) list \<Rightarrow> 'a kwargs \<Rightarrow>
     ('s, unit) action" where
  "PartdNumpy_append env h data kwargs s =
     (case iset_loop env h data s of
        (Inl e, s') \<Rightarrow> (Inl e, s')
      | (Inr u, s') \<Rightarrow> partd_append h (map (\<lambda>(k, v). (k, tobytes env v)) data) kwargs s')"

text \<open>
  \<^verbatim>\<open>
  def _get(self, keys, **kwargs):
      bytes = self.partd._get(keys, **kwargs)
      dtypes = self.partd._get([extend(key, '.dtype') for key in keys],
                               lock=False)
      return list(map(np.frombuffer, bytes, dtypes))
  \<close>
  The local \<^verbatim>\<open>dtypes\<close> (\<open>texts\<close> below) holds what the store returned.
  \<^verbatim>\<open>np.frombuffer\<close> is given the stored text itself as its dtype argument; numpy
  turns a dtype argument that is not a dtype into one with \<^verbatim>\<open>np.dtype\<close>.
\<close>

definition frombuffer_text :: "('a, 'd, 'v) python \<Rightarrow> bytes \<Rightarrow> string \<Rightarrow> error + 'v" where
  "frombuffer_text env b t =
     (case np_dtype env (PyStr t) of Inl e \<Rightarrow> Inl e | Inr d \<Rightarrow> frombuffer env b d)"

definition PartdNumpy_get ::
  "('a, 'd, 'v) python \<Rightarrow> ('a, 's) partd \<Rightarrow> 'a pyobj list \<Rightarrow> 'a kwargs \<Rightarrow>
     ('s, 'v list) action" where
  "PartdNumpy_get env h keys kwargs s =
     (case partd_get h keys kwargs s of
        (Inl e, s') \<Rightarrow> (Inl e, s')
      | (Inr bytes, s') \<Rightarrow>
          (case map_err (\<lambda>key. extend env key ''.dtype'') keys of
             Inl e \<Rightarrow> (Inl e, s')
           | Inr dt_keys \<Rightarrow>
               (case partd_get h dt_keys \<lparr>lock = Some False, rest = []\<rparr> s' of
                  (Inl e, s'') \<Rightarrow> (Inl e, s'')
                | (Inr texts, s'') \<Rightarrow>
                    (map_err (\<lambda>(b, t). frombuffer_text env b t) (zip bytes texts), s''))))"

text \<open>
  \<^verbatim>\<open>
  def delete(self, keys, **kwargs):
      keys2 = [extend(key, '.dtype') for key in keys]
      self.partd.delete(keys2, **kwargs)
  \<close>
\<close>

definition PartdNumpy_delete ::
  "('a, 'd, 'v) python \<Rightarrow> ('a, 's) partd \<Rightarrow> 'a pyobj list \<Rightarrow> 'a kwargs \<Rightarrow>
     ('s, unit) action" where
  "PartdNumpy_delete env h keys kwargs s =
     (case map_err (\<lambda>key. extend env key ''.dtype'') keys of
        Inl e \<Rightarrow> (Inl e, s)
      | Inr keys2 \<Rightarrow> partd_delete h keys2 kwargs s)"

section \<open>The underlying byte store\<close>

text \<open>
  The module \<^verbatim>\<open>core\<close> of the package (its functions \<^verbatim>\<open>get\<close>, \<^verbatim>\<open>put\<close>, \<^verbatim>\<open>ensure\<close> and
  the handle class with \<^verbatim>\<open>_iset\<close>, \<^verbatim>\<open>append\<close>, \<^verbatim>\<open>_get\<close>, \<^verbatim>\<open>delete\<close>) lies outside
  \<^verbatim>\<open>partd/numpy.py\<close>.  The definitions of this section follow the contract that the
  specification gives for the store in its section on external interfaces.  A store is
  a map from a location and a key to bytes.
\<close>

type_synonym 'a bytestore = "(path \<times> 'a pyobj) \<Rightarrow> bytes option"

text \<open>
  Modelled from the spec: \<^verbatim>\<open>core.put\<close>, absent from the sources.  The spec:
  ``\<^verbatim>\<open>put(location, mapping key->bytes, **opts)\<close> -- write-or-overwrite''.
\<close>

definition core_put :: "('a, 'a bytestore) store_put" where
  "core_put path items kwargs st = (Inr (), fold (\<lambda>(k, b) m. m((path, k) \<mapsto> b)) items st)"

text \<open>
  Modelled from the spec: \<^verbatim>\<open>core.get\<close>, absent from the sources.  The spec:
  ``\<^verbatim>\<open>get(location, ordered keys, lock: bool, **opts)\<close> -- batched read; must preserve
  input key order in output'', and ``a missing data key fails with a KeyNotFound error
  from the underlying store; a missing metadata key fails similarly''.
\<close>

definition core_get :: "('a, 'a bytestore) store_get" where
  "core_get path keys kwargs st =
     (map_err (\<lambda>k. case st (path, k) of None \<Rightarrow> Inl KeyNotFound | Some b \<Rightarrow> Inr b) keys, st)"

text \<open>
  Modelled from the spec: \<^verbatim>\<open>core.ensure\<close>, absent from the sources.  The spec:
  ``\<^verbatim>\<open>ensure(location, key, value)\<close> -- idempotent metadata set (insert-or-update single
  scalar value)''.
\<close>

definition core_ensure :: "('a, 'a bytestore) store_ensure" where
  "core_ensure path k v st = (Inr (), st((path, k) \<mapsto> v))"

text \<open>
  Modelled from the spec: the handle class of \<^verbatim>\<open>core\<close>, absent from the sources, as the
  handle bound to the location \<open>path\<close>.  The spec: \<^verbatim>\<open>_iset\<close> has ``unconditional
  insert-or-set semantics''; ``\<^verbatim>\<open>append(location handle, mapping key->bytes, **opts)\<close> --
  append bytes to existing (or create) entries''; ``\<^verbatim>\<open>delete(location handle, ordered
  keys, **opts)\<close> -- remove entries''; the read is the batched read above.
\<close>

definition handle_at :: "path \<Rightarrow> ('a, 'a bytestore) partd" where
  "handle_at path =
     \<lparr>partd_iset = (\<lambda>k v st. (Inr (), st((path, k) \<mapsto> v))),
      partd_append = (\<lambda>items kwargs st.
         (Inr (), fold (\<lambda>(k, b) m.
                    m((path, k) \<mapsto> (case m (path, k) of None \<Rightarrow> b | Some old \<Rightarrow> old @ b)))
                  items st)),
      partd_get = core_get path,
      partd_delete = (\<lambda>keys kwargs st.
         (Inr (), (\<lambda>(p, k). if p = path \<and> k \<in> set keys then None else st (p, k))))\<rparr>"

text \<open>
  A call-counting store for the memoization properties: the store above with the number
  of reads made so far.
\<close>

definition counting_get :: "('a, 'a bytestore \<times> nat) store_get" where
  "counting_get path keys kwargs sn =
     (fst (core_get path keys kwargs (fst sn)), (fst sn, Suc (snd sn)))"

section \<open>A small instance of Python and numpy\<close>

text \<open>
  The functions above are defined for every instance of the record \<open>python\<close>.  To run
  them on inputs, this section gives one instance, a fragment of numpy: the objects
  other than strings and tuples are \<^verbatim>\<open>None\<close> and lists of \<^verbatim>\<open>(name, type)\<close> pairs of
  strings; the dtypes are three primitive ones and the structured dtypes over them; an
  array is its shape, its bytes and its dtype.
\<close>

datatype other = ONone | OFields "(string \<times> string) list"

datatype prim = Int32 | Float64 | DateTime64_ns

datatype dtype = Primitive prim | Structured "(string \<times> prim) list"

datatype ndarray = NDArray (shape: "nat list") (buffer: bytes) (descr: dtype)

fun prim_name :: "prim \<Rightarrow> string" where
  "prim_name Int32 = ''int32''"
| "prim_name Float64 = ''float64''"
| "prim_name DateTime64_ns = ''datetime64[ns]''"

fun prim_code :: "prim \<Rightarrow> string" where
  "prim_code Int32 = ''<i4''"
| "prim_code Float64 = ''<f8''"
| "prim_code DateTime64_ns = ''<M8[ns]''"

fun prim_size :: "prim \<Rightarrow> nat" where
  "prim_size Int32 = 4"
| "prim_size Float64 = 8"
| "prim_size DateTime64_ns = 8"

definition prim_of_text :: "string \<Rightarrow> prim option" where
  "prim_of_text s =
     (if s = ''int32'' \<or> s = ''<i4'' \<or> s = ''i4'' then Some Int32
      else if s = ''float64'' \<or> s = ''<f8'' \<or> s = ''f8'' then Some Float64
      else if s = ''datetime64[ns]'' \<or> s = ''<M8[ns]'' \<or> s = ''M8[ns]'' then Some DateTime64_ns
      else None)"

fun join_comma :: "string list \<Rightarrow> string" where
  "join_comma [] = []"
| "join_comma [x] = x"
| "join_comma (x # y # r) = x @ '', '' @ join_comma (y # r)"

text \<open>The text of a list of pairs of strings, as \<^verbatim>\<open>str\<close> prints it: \<^verbatim>\<open>[('a', '<i4')]\<close>.\<close>

definition render_fields :: "(string \<times> string) list \<Rightarrow> string" where
  "render_fields fs =
     ''['' @ join_comma (map (\<lambda>(n, t). ''('' @ [CHR 0x27] @ n @ [CHR 0x27] @ '', ''
                                        @ [CHR 0x27] @ t @ [CHR 0x27] @ '')'') fs) @ '']''"

fun sample_render :: "dtype \<Rightarrow> string" where
  "sample_render (Primitive p) = prim_name p"
| "sample_render (Structured fs) = render_fields (map (\<lambda>(n, p). (n, prim_code p)) fs)"

fun fields_of_texts :: "(string \<times> string) list \<Rightarrow> (string \<times> prim) list option" where
  "fields_of_texts [] = Some []"
| "fields_of_texts ((n, t) # fs) =
     (case prim_of_text t of
        None \<Rightarrow> None
      | Some p \<Rightarrow> (case fields_of_texts fs of None \<Rightarrow> None | Some ps \<Rightarrow> Some ((n, p) # ps)))"

text \<open>
  \<^verbatim>\<open>np.dtype\<close> on the fragment: a primitive token, \<^verbatim>\<open>None\<close> (numpy's default, float64) or
  a list of fields; TypeError (``data type not understood'') on any other string, in
  particular on the text of a list of fields, and on tuples.
\<close>

fun sample_np_dtype :: "other pyobj \<Rightarrow> error + dtype" where
  "sample_np_dtype (PyStr s) =
     (case prim_of_text s of None \<Rightarrow> Inl TypeError | Some p \<Rightarrow> Inr (Primitive p))"
| "sample_np_dtype (PyTuple ks) = Inl TypeError"
| "sample_np_dtype (PyOther ONone) = Inr (Primitive Float64)"
| "sample_np_dtype (PyOther (OFields fs)) =
     (case fields_of_texts fs of None \<Rightarrow> Inl TypeError | Some ps \<Rightarrow> Inr (Structured ps))"

text \<open>
  \<^verbatim>\<open>eval\<close> on the fragment, as a table: the texts of three lists of fields evaluate
  to those lists, and every other text raises NameError, as \<^verbatim>\<open>datetime64[ns]\<close> does in
  Python (the module binds no name \<^verbatim>\<open>datetime64\<close>).  The table stands for \<^verbatim>\<open>eval\<close> on
  the texts of the examples below only: Python evaluates the text of any list of
  fields, and raises SyntaxError on a text that is not an expression.
\<close>

definition known_field_lists :: "(string \<times> string) list list" where
  "known_field_lists =
     [[(''a'', ''<i4'')], [(''a'', ''int32'')], [(''a'', ''<i4''), (''b'', ''<f8'')]]"

definition sample_eval :: "string \<Rightarrow> error + other pyobj" where
  "sample_eval s =
     (case find (\<lambda>fs. render_fields fs = s) known_field_lists of
        None \<Rightarrow> Inl NameError
      | Some fs \<Rightarrow> Inr (PyOther (OFields fs)))"

fun itemsize :: "dtype \<Rightarrow> nat" where
  "itemsize (Primitive p) = prim_size p"
| "itemsize (Structured fs) = sum_list (map (\<lambda>(n, p). prim_size p) fs)"

text \<open>
  \<^verbatim>\<open>np.frombuffer\<close> on the fragment: a flat view of the bytes, ValueError when their
  number is not a multiple of the item size.
\<close>

definition sample_frombuffer :: "bytes \<Rightarrow> dtype \<Rightarrow> error + ndarray" where
  "sample_frombuffer b d =
     (if 0 < itemsize d \<and> length b mod itemsize d = 0
      then Inr (NDArray [length b div itemsize d] b d)
      else Inl ValueError)"

fun sample_str :: "other \<Rightarrow> string" where
  "sample_str ONone = ''None''"
| "sample_str (OFields fs) = render_fields fs"

fun sample_hashable :: "other \<Rightarrow> bool" where
  "sample_hashable ONone = True"
| "sample_hashable (OFields fs) = False"

definition sample_env :: "(other, dtype, ndarray) python" where
  "sample_env =
     \<lparr>str_of = sample_str,
      add_str = (\<lambda>x s. Inl TypeError),
      hashable = sample_hashable,
      py_eval = sample_eval,
      np_dtype = sample_np_dtype,
      render = sample_render,
      tobytes = buffer,
      dtype_of = descr,
      frombuffer = sample_frombuffer\<rparr>"

text \<open>
  Inputs for the examples: three arrays, the call without options, and the state of a
  fresh process on an empty store (nothing memoized, nothing stored).
\<close>

definition int_array :: ndarray where
  "int_array = NDArray [1] ''abcd'' (Primitive Int32)"

definition float_array :: ndarray where
  "float_array = NDArray [1] ''abcdefgh'' (Primitive Float64)"

definition record_array :: ndarray where
  "record_array = NDArray [1] ''abcd'' (Structured [(''a'', Int32)])"

definition no_kwargs :: "other kwargs" where
  "no_kwargs = \<lparr>lock = None, rest = []\<rparr>"

definition empty_store :: "other bytestore" where
  "empty_store = (\<lambda>pk. None)"

definition fresh_world :: "(other, dtype, other bytestore) world" where
  "fresh_world = \<lparr>cache = (\<lambda>pk. None), store = empty_store\<rparr>"

text \<open>
  The state after \<^verbatim>\<open>put('p', {'x': int_array})\<close> and \<^verbatim>\<open>get('p', ['x'])\<close> in a fresh
  process: the store holds the array and its dtype, the memo holds the dtype read.
\<close>

definition world_after_read :: "(other, dtype, other bytestore) world" where
  "world_after_read =
     snd (get sample_env ''p'' [PyStr ''x''] core_get no_kwargs
            (fresh_world\<lparr>store :=
               snd (put sample_env core_ensure ''p'' [(PyStr ''x'', int_array)] core_put
                      no_kwargs (store fresh_world))\<rparr>))"

text \<open>
  Stores for the examples: one array under \<^verbatim>\<open>x\<close> with its dtype, and one array stored
  under the key \<^verbatim>\<open>x.dtype\<close> with its dtype.
\<close>

definition two_entries :: "other bytestore" where
  "two_entries =
     empty_store((''p'', PyStr ''x'') \<mapsto> ''abcd'', (''p'', PyStr ''x.dtype'') \<mapsto> ''int32'')"

definition dtype_named_entries :: "other bytestore" where
  "dtype_named_entries =
     empty_store((''p'', PyStr ''x.dtype'') \<mapsto> ''abcd'',
                 (''p'', PyStr ''x.dtype.dtype'') \<mapsto> ''int32'')"

text \<open>
  States over the call-counting store: before any read, after the first read of the
  dtype of \<^verbatim>\<open>x\<close>, and the latter with the store emptied behind the memo's back.
\<close>

definition uncounted :: "(other, dtype, other bytestore \<times> nat) world" where
  "uncounted = \<lparr>cache = (\<lambda>pk. None), store = (two_entries, 0)\<rparr>"

definition counted_once :: "(other, dtype, other bytestore \<times> nat) world" where
  "counted_once =
     \<lparr>cache = (\<lambda>pk. None)((''p'', [PyStr ''x'']) \<mapsto> [Primitive Int32]),
      store = (two_entries, 1)\<rparr>"

definition changed_store :: "(other, dtype, other bytestore \<times> nat) world" where
  "changed_store = counted_once\<lparr>store := (empty_store, 7)\<rparr>"

text \<open>
  The dtypes of two arrays \<^verbatim>\<open>x\<close> and \<^verbatim>\<open>y\<close> in the call-counting store: before any
  read, and after one read of the dtypes of \<^verbatim>\<open>['y', 'x']\<close>.
\<close>

definition pair_entries :: "other bytestore" where
  "pair_entries =
     empty_store((''p'', PyStr ''x.dtype'') \<mapsto> ''int32'',
                 (''p'', PyStr ''y.dtype'') \<mapsto> ''float64'')"

definition uncounted_pair :: "(other, dtype, other bytestore \<times> nat) world" where
  "uncounted_pair = \<lparr>cache = (\<lambda>pk. None), store = (pair_entries, 0)\<rparr>"

definition counted_pair :: "(other, dtype, other bytestore \<times> nat) world" where
  "counted_pair =
     \<lparr>cache = (\<lambda>pk. None)((''p'', [PyStr ''y'', PyStr ''x''])
                \<mapsto> [Primitive Float64, Primitive Int32]),
      store = (pair_entries, 1)\<rparr>"

section \<open>Auxiliary facts\<close>

lemma map_err_Inr: "map_err f xs = Inr ys \<Longrightarrow> map f xs = map Inr ys"
  by (induction xs arbitrary: ys) (auto split: sum.splits)

lemma map_err_eq_Inr: "map f xs = map Inr ys \<Longrightarrow> map_err f xs = Inr ys"
  by (induction xs arbitrary: ys) (auto split: sum.splits)

text \<open>An extended key is never the key itself.\<close>

lemma extend_changes_key:
  "extend env k suffix = Inr k' \<Longrightarrow> suffix \<noteq> [] \<Longrightarrow> k' \<noteq> k"
proof (induction env k suffix arbitrary: k' rule: extend.induct)
  case (1 env k suffix)
  then show ?case by auto
next
  case (2 env ks suffix)
  show ?case
  proof (cases "ks = []")
    case True
    with 2 show ?thesis by simp
  next
    case False
    with 2(2) obtain l where l: "extend env (last ks) suffix = Inr l"
      and k': "k' = PyTuple (butlast ks @ [l])"
      by (auto split: sum.splits)
    from 2(1) [OF False l 2(3)] have "l \<noteq> last ks" .
    show ?thesis
    proof
      assume "k' = PyTuple ks"
      with k' have "butlast ks @ [l] = ks" by simp
      then have "last (butlast ks @ [l]) = last ks" by simp
      then have "l = last ks" by simp
      with \<open>l \<noteq> last ks\<close> show False by simp
    qed
  qed
next
  case (3 env x suffix)
  then show ?case by auto
qed

lemma extend_ignores_eval:
  "extend (env\<lparr>py_eval := e\<rparr>) k suffix = extend env k suffix"
  by (induction env k suffix rule: extend.induct) simp_all

text \<open>The hit, and what a call that returns leaves in the memo.\<close>

lemma dtypes_hit:
  "list_all (hashable_key env) keys \<Longrightarrow> cache w (path, keys) = Some ds \<Longrightarrow>
   dtypes env path keys get_fn lock_flag kw w = (Inr ds, w)"
  by (simp add: dtypes_def)

lemma dtypes_returns:
  assumes "dtypes env path keys get_fn lock_flag kw w = (Inr ds, w1)"
  shows "list_all (hashable_key env) keys" and "cache w1 (path, keys) = Some ds"
  using assms by (auto simp: dtypes_def split: if_splits option.splits prod.splits sum.splits)

lemma dtypes_miss:
  assumes "dtypes env path keys get_fn lock_flag kw w = (Inr ds, w1)"
    and "cache w (path, keys) = None"
  shows "\<exists>dt_keys text.
           map (\<lambda>key. extend env key ''.dtype'') keys = map Inr dt_keys
         \<and> get_fn path dt_keys \<lparr>lock = Some lock_flag, rest = kw\<rparr> (store w)
             = (Inr text, store w1)
         \<and> map (parse_dtype env) text = map Inr ds
         \<and> cache w1 = (cache w)((path, keys) \<mapsto> ds)"
  using assms
  by (auto simp: dtypes_def dtypes_body_def dest!: map_err_Inr
           split: if_splits option.splits prod.splits sum.splits)

text \<open>
  The miss whose steps succeed returns and memoizes; a call that raises memoizes nothing.
\<close>

lemma dtypes_miss_returns:
  assumes "list_all (hashable_key env) keys"
    and "cache w (path, keys) = None"
    and "map (\<lambda>key. extend env key ''.dtype'') keys = map Inr dt_keys"
    and "get_fn path dt_keys \<lparr>lock = Some lock_flag, rest = kw\<rparr> (store w) = (Inr texts, s')"
    and "map (parse_dtype env) texts = map Inr ds"
  shows "dtypes env path keys get_fn lock_flag kw w
           = (Inr ds, w\<lparr>cache := (cache w)((path, keys) \<mapsto> ds), store := s'\<rparr>)"
  using assms(1,2,4) map_err_eq_Inr [OF assms(3)] map_err_eq_Inr [OF assms(5)]
  by (simp add: dtypes_def dtypes_body_def)

lemma dtypes_raise_keeps_cache:
  "dtypes env path keys get_fn lock_flag kw w = (Inl e, w') \<Longrightarrow> cache w' = cache w"
  by (auto simp: dtypes_def split: if_splits option.splits prod.splits sum.splits)

text \<open>Evaluations in the small instance that several examples share.\<close>

lemma sample_eval_a_int32:
  "sample_eval ''[('a', 'int32')]'' = Inr (PyOther (OFields [(''a'', ''int32'')]))"
  by (simp add: sample_eval_def known_field_lists_def render_fields_def)

lemma world_after_read_eq:
  "world_after_read =
     \<lparr>cache = (\<lambda>pk. None)((''p'', [PyStr ''x'']) \<mapsto> [Primitive Int32]),
      store = empty_store((''p'', PyStr ''x'') \<mapsto> ''abcd'',
                          (''p'', PyStr ''x.dtype'') \<mapsto> ''int32'')\<rparr>"
  by (simp add: world_after_read_def get_def put_def dtypes_def dtypes_body_def core_get_def
        core_put_def core_ensure_def fresh_world_def no_kwargs_def sample_env_def int_array_def
        parse_dtype_def prim_of_text_def sample_frombuffer_def empty_store_def)

lemma first_counted:
  "dtypes sample_env ''p'' [PyStr ''x''] counting_get False [] uncounted
     = (Inr [Primitive Int32], counted_once)"
  by (simp add: dtypes_def dtypes_body_def counting_get_def core_get_def uncounted_def
        counted_once_def two_entries_def sample_env_def parse_dtype_def prim_of_text_def)

section \<open>Properties of key extension\<close>

text \<open>
  The tuple \<^verbatim>\<open>((),)\<close> is not empty, yet \<open>extend\<close> returns no tuple on it: its last
  element is the empty tuple, on which the recursive call raises IndexError.
\<close>

theorem extend_nested_empty_tuple_counterexample:
  "extend sample_env (PyTuple [PyTuple []]) ''.dtype'' = Inl IndexError"
  by simp

text \<open>
  C2, amended.  On a string key, \<open>extend\<close> is concatenation with the suffix.  On a
  tuple \<open>(k1, ..., kn)\<close> with \<open>n > 0\<close>: when \<open>extend kn suffix\<close> returns \<open>kn'\<close>, it is the
  tuple with the same elements in every position but the last and \<open>kn'\<close> in the last
  one; when \<open>extend kn suffix\<close> raises, it raises the same exception.  On any other
  object it is \<open>extend\<close> of the object's \<open>str\<close>, hence that text followed by the suffix.
\<close>

theorem extend_contract:
  "extend env (PyStr k) suffix = Inr (PyStr (k @ suffix))
   \<and> extend env (PyTuple (ks @ [kn])) suffix =
       (case extend env kn suffix of
          Inl e \<Rightarrow> Inl e
        | Inr kn' \<Rightarrow> Inr (PyTuple (ks @ [kn'])))
   \<and> extend env (PyOther x) suffix = extend env (PyStr (str_of env x)) suffix
   \<and> extend env (PyOther x) suffix = Inr (PyStr (str_of env x @ suffix))"
  by (simp split: sum.splits)

text \<open>The examples of the docstring, and \<^verbatim>\<open>None\<close> as a key.\<close>

theorem extend_contract_witness:
  "extend sample_env (PyStr ''x'') ''.dtype'' = Inr (PyStr ''x.dtype'')
   \<and> extend sample_env (PyTuple [PyStr ''a'', PyStr ''b'', PyStr ''c'']) ''.dtype''
       = Inr (PyTuple [PyStr ''a'', PyStr ''b'', PyStr ''c.dtype''])
   \<and> extend sample_env (PyOther ONone) ''.dtype'' = Inr (PyStr ''None.dtype'')"
  using extend_contract [where env = sample_env and k = "''x''" and suffix = "''.dtype''"
      and ks = "[PyStr ''a'', PyStr ''b'']" and kn = "PyStr ''c''" and x = ONone]
  by (simp add: sample_env_def)

text \<open>
  C9.  The empty tuple has no last element: \<open>extend\<close> raises IndexError on it, whatever
  the suffix.
\<close>

theorem extend_empty_tuple: "extend env (PyTuple []) suffix = Inl IndexError"
  by simp

section \<open>Properties of the codec\<close>

text \<open>
  C5.  A text that contains the character \<^verbatim>\<open>[\<close> is evaluated as an expression and the
  value is made a dtype; any other text is made a dtype as it is, as a type token.
\<close>

theorem parse_dtype_dispatch:
  "(CHR ''['' \<in> set s \<longrightarrow>
      parse_dtype env s = (case py_eval env s of Inl e \<Rightarrow> Inl e | Inr obj \<Rightarrow> np_dtype env obj))
   \<and> (CHR ''['' \<notin> set s \<longrightarrow> parse_dtype env s = np_dtype env (PyStr s))"
  by (simp add: parse_dtype_def)

text \<open>The two examples of the docstring.\<close>

theorem parse_dtype_dispatch_witness:
  "CHR ''['' \<in> set ''[('a', 'int32')]''
   \<and> parse_dtype sample_env ''[('a', 'int32')]'' = Inr (Structured [(''a'', Int32)])
   \<and> CHR ''['' \<notin> set ''int32''
   \<and> parse_dtype sample_env ''int32'' = Inr (Primitive Int32)"
  using parse_dtype_dispatch [of "''[('a', 'int32')]''" sample_env]
    parse_dtype_dispatch [of "''int32''" sample_env]
  by (simp add: sample_env_def sample_eval_a_int32 prim_of_text_def)

text \<open>
  Where the text of a dtype has no \<^verbatim>\<open>[\<close>, \<open>parse_dtype\<close> inverts \<open>render\<close> as far as
  \<^verbatim>\<open>np.dtype\<close> does; where it has one, \<^verbatim>\<open>np.dtype\<close> is never given the text.
\<close>

lemma parse_dtype_render_plain:
  "CHR ''['' \<notin> set (render env d) \<Longrightarrow> np_dtype env (PyStr (render env d)) = Inr d \<Longrightarrow>
   parse_dtype env (render env d) = Inr d"
  by (simp add: parse_dtype_def)

lemma parse_dtype_render_bracket:
  "CHR ''['' \<in> set (render env d) \<Longrightarrow> py_eval env (render env d) = Inl e \<Longrightarrow>
   parse_dtype env (render env d) = Inl e"
  by (simp add: parse_dtype_def)

text \<open>
  C6.  The round trip fails on a primitive dtype whose text contains \<^verbatim>\<open>[\<close>.  The text
  of numpy's \<^verbatim>\<open>datetime64[ns]\<close> is \<^verbatim>\<open>datetime64[ns]\<close>; \<open>parse_dtype\<close> evaluates it as an
  expression, and the evaluation raises NameError.
\<close>

theorem parse_dtype_datetime64:
  "render sample_env (Primitive DateTime64_ns) = ''datetime64[ns]''
   \<and> np_dtype sample_env (PyStr ''datetime64[ns]'') = Inr (Primitive DateTime64_ns)
   \<and> parse_dtype sample_env (render sample_env (Primitive DateTime64_ns)) = Inl NameError"
  by (simp add: parse_dtype_def sample_env_def sample_eval_def known_field_lists_def
        render_fields_def prim_of_text_def)

section \<open>Properties of the metadata cache\<close>

text \<open>
  C4.  A miss: when the keys are hashable, the memo has no entry for the path and the
  keys, every key extends with \<^verbatim>\<open>.dtype\<close>, the one read of the store at all the
  extended keys returns texts and every text parses, \<open>dtypes\<close> returns the parsed
  dtypes, position by position in the order of the keys, memoizes them under the path
  and the keys, and leaves the store as that one read left it.  A hit: when a call of
  \<open>dtypes\<close> has returned the list \<open>ds'\<close>, the same call made again returns \<open>ds'\<close> and
  leaves the store and the memo as they are, whatever the store function would have
  done: the store is not read.  A first call that returned on a miss did so by those
  steps, and a call that raises memoizes nothing.
\<close>

theorem dtypes_memoized:
  "(list_all (hashable_key env) keys
      \<and> cache w (path, keys) = None
      \<and> map (\<lambda>key. extend env key ''.dtype'') keys = map Inr dt_keys
      \<and> get_fn path dt_keys \<lparr>lock = Some lock_flag, rest = kw\<rparr> (store w) = (Inr texts, s')
      \<and> map (parse_dtype env) texts = map Inr ds
    \<longrightarrow> dtypes env path keys get_fn lock_flag kw w
          = (Inr ds, w\<lparr>cache := (cache w)((path, keys) \<mapsto> ds), store := s'\<rparr>))
   \<and> (dtypes env path keys get_fn lock_flag kw w = (Inr ds', w')
    \<longrightarrow> dtypes env path keys get_fn lock_flag kw w' = (Inr ds', w')
        \<and> (cache w (path, keys) = None \<longrightarrow>
             (\<exists>dt_keys' texts'.
                map (\<lambda>key. extend env key ''.dtype'') keys = map Inr dt_keys'
              \<and> get_fn path dt_keys' \<lparr>lock = Some lock_flag, rest = kw\<rparr> (store w)
                  = (Inr texts', store w')
              \<and> map (parse_dtype env) texts' = map Inr ds'
              \<and> cache w' = (cache w)((path, keys) \<mapsto> ds'))))
   \<and> (dtypes env path keys get_fn lock_flag kw w = (Inl e, w'') \<longrightarrow> cache w'' = cache w)"
proof (intro conjI impI)
  assume "list_all (hashable_key env) keys
      \<and> cache w (path, keys) = None
      \<and> map (\<lambda>key. extend env key ''.dtype'') keys = map Inr dt_keys
      \<and> get_fn path dt_keys \<lparr>lock = Some lock_flag, rest = kw\<rparr> (store w) = (Inr texts, s')
      \<and> map (parse_dtype env) texts = map Inr ds"
  then show "dtypes env path keys get_fn lock_flag kw w
      = (Inr ds, w\<lparr>cache := (cache w)((path, keys) \<mapsto> ds), store := s'\<rparr>)"
    by (simp add: dtypes_miss_returns)
next
  assume r: "dtypes env path keys get_fn lock_flag kw w = (Inr ds', w')"
  from dtypes_returns [OF r] show "dtypes env path keys get_fn lock_flag kw w' = (Inr ds', w')"
    by (simp add: dtypes_hit)
next
  assume r: "dtypes env path keys get_fn lock_flag kw w = (Inr ds', w')"
    and m: "cache w (path, keys) = None"
  from dtypes_miss [OF r m]
  show "\<exists>dt_keys' texts'.
                map (\<lambda>key. extend env key ''.dtype'') keys = map Inr dt_keys'
              \<and> get_fn path dt_keys' \<lparr>lock = Some lock_flag, rest = kw\<rparr> (store w)
                  = (Inr texts', store w')
              \<and> map (parse_dtype env) texts' = map Inr ds'
              \<and> cache w' = (cache w)((path, keys) \<mapsto> ds')" .
next
  assume "dtypes env path keys get_fn lock_flag kw w = (Inl e, w'')"
  then show "cache w'' = cache w" by (rule dtypes_raise_keeps_cache)
qed

text \<open>
  On the call-counting store, for the keys \<^verbatim>\<open>['y', 'x']\<close>: the first call reads once,
  both extended keys in one read (the count goes from 0 to 1), and returns float64 and
  int32 in the order of the keys; the second call returns the same list and the count
  stays at 1.
\<close>

theorem dtypes_memoized_witness:
  "list_all (hashable_key sample_env) [PyStr ''y'', PyStr ''x'']
   \<and> cache uncounted_pair (''p'', [PyStr ''y'', PyStr ''x'']) = None
   \<and> map (\<lambda>key. extend sample_env key ''.dtype'') [PyStr ''y'', PyStr ''x'']
       = map Inr [PyStr ''y.dtype'', PyStr ''x.dtype'']
   \<and> counting_get ''p'' [PyStr ''y.dtype'', PyStr ''x.dtype''] \<lparr>lock = Some False, rest = []\<rparr>
        (store uncounted_pair) = (Inr [''float64'', ''int32''], (pair_entries, 1))
   \<and> map (parse_dtype sample_env) [''float64'', ''int32'']
       = map Inr [Primitive Float64, Primitive Int32]
   \<and> dtypes sample_env ''p'' [PyStr ''y'', PyStr ''x''] counting_get False [] uncounted_pair
       = (Inr [Primitive Float64, Primitive Int32], counted_pair)
   \<and> dtypes sample_env ''p'' [PyStr ''y'', PyStr ''x''] counting_get False [] counted_pair
       = (Inr [Primitive Float64, Primitive Int32], counted_pair)
   \<and> snd (store uncounted_pair) = 0 \<and> snd (store counted_pair) = 1"
proof -
  have h1: "list_all (hashable_key sample_env) [PyStr ''y'', PyStr ''x'']"
    by simp
  have h2: "cache uncounted_pair (''p'', [PyStr ''y'', PyStr ''x'']) = None"
    by (simp add: uncounted_pair_def)
  have h3: "map (\<lambda>key. extend sample_env key ''.dtype'') [PyStr ''y'', PyStr ''x'']
              = map Inr [PyStr ''y.dtype'', PyStr ''x.dtype'']"
    by simp
  have h4: "counting_get ''p'' [PyStr ''y.dtype'', PyStr ''x.dtype'']
              \<lparr>lock = Some False, rest = []\<rparr> (store uncounted_pair)
              = (Inr [''float64'', ''int32''], (pair_entries, 1))"
    by (simp add: counting_get_def core_get_def uncounted_pair_def pair_entries_def)
  have h5: "map (parse_dtype sample_env) [''float64'', ''int32'']
              = map Inr [Primitive Float64, Primitive Int32]"
    by (simp add: parse_dtype_def sample_env_def prim_of_text_def)
  have w1: "uncounted_pair\<lparr>cache := (cache uncounted_pair)((''p'', [PyStr ''y'', PyStr ''x''])
                \<mapsto> [Primitive Float64, Primitive Int32]), store := (pair_entries, 1)\<rparr>
              = counted_pair"
    by (simp add: uncounted_pair_def counted_pair_def)
  note t = dtypes_memoized [where env = sample_env and keys = "[PyStr ''y'', PyStr ''x'']"
      and w = uncounted_pair and path = "''p''" and get_fn = counting_get
      and lock_flag = False and kw = "[]" and dt_keys = "[PyStr ''y.dtype'', PyStr ''x.dtype'']"
      and texts = "[''float64'', ''int32'']" and s' = "(pair_entries, 1)"
      and ds = "[Primitive Float64, Primitive Int32]"
      and ds' = "[Primitive Float64, Primitive Int32]" and w' = counted_pair]
  from t h1 h2 h3 h4 h5 have first:
    "dtypes sample_env ''p'' [PyStr ''y'', PyStr ''x''] counting_get False [] uncounted_pair
       = (Inr [Primitive Float64, Primitive Int32], counted_pair)"
    unfolding w1 by blast
  with t have second:
    "dtypes sample_env ''p'' [PyStr ''y'', PyStr ''x''] counting_get False [] counted_pair
       = (Inr [Primitive Float64, Primitive Int32], counted_pair)"
    by blast
  show ?thesis
    using h1 h2 h3 h4 h5 first second by (simp add: uncounted_pair_def counted_pair_def)
qed

text \<open>
  C10.  The memo is keyed by the path and the sequence of keys alone.  Once a call has
  returned \<open>ds\<close>, a call with the same path and keys returns \<open>ds\<close> and changes nothing,
  whatever its store function, its lock flag and its other options, in every later state
  that still holds the entry (the store may have changed in any way).
\<close>

theorem dtypes_key_only:
  assumes "dtypes env path keys get1 lock1 kw1 w = (Inr ds, w1)"
    and "cache w2 (path, keys) = cache w1 (path, keys)"
  shows "dtypes env path keys get2 lock2 kw2 w2 = (Inr ds, w2)"
  using dtypes_returns [OF assms(1)] assms(2) by (simp add: dtypes_hit)

text \<open>
  After the first read, with the store emptied: a call with a store function that always
  fails, with the lock on and one more option, still returns the memoized list.
\<close>

theorem dtypes_key_only_witness:
  "dtypes sample_env ''p'' [PyStr ''x''] counting_get False [] uncounted
     = (Inr [Primitive Int32], counted_once)
   \<and> cache changed_store (''p'', [PyStr ''x'']) = cache counted_once (''p'', [PyStr ''x''])
   \<and> dtypes sample_env ''p'' [PyStr ''x''] (\<lambda>p ks kw s. (Inl KeyNotFound, s)) True
        [(''mode'', PyStr ''r'')] changed_store
       = (Inr [Primitive Int32], changed_store)"
proof -
  have c: "cache changed_store (''p'', [PyStr ''x''])
             = cache counted_once (''p'', [PyStr ''x''])"
    by (simp add: changed_store_def)
  show ?thesis
    using first_counted c dtypes_key_only [OF first_counted c] by simp
qed

text \<open>
  The memo never loses or changes an entry: neither \<open>dtypes\<close> nor \<open>get\<close> removes or
  overwrites one, and \<open>put\<close> and the incremental object do not touch the memo at all.
\<close>

lemma dtypes_keeps_entries:
  "cache w (p, ks) = Some ds \<Longrightarrow>
   cache (snd (dtypes env path keys get_fn lock_flag kw w)) (p, ks) = Some ds"
  by (auto simp: dtypes_def split: option.splits prod.splits sum.splits)

lemma get_keeps_entries:
  "cache w (p, ks) = Some ds \<Longrightarrow>
   cache (snd (get env path keys get_fn kwargs w)) (p, ks) = Some ds"
proof -
  assume c: "cache w (p, ks) = Some ds"
  show ?thesis
  proof (cases "get_fn path keys kwargs (store w)")
    case (Pair r s')
    show ?thesis
    proof (cases r)
      case (Inl e)
      with Pair c show ?thesis by (simp add: get_def)
    next
      case (Inr bs)
      from c have "cache (w\<lparr>store := s'\<rparr>) (p, ks) = Some ds" by simp
      from dtypes_keeps_entries [OF this, of env path keys get_fn
          "case lock kwargs of None \<Rightarrow> False | Some l \<Rightarrow> l" "rest kwargs"] Pair Inr
      show ?thesis
        by (auto simp: get_def split: prod.splits sum.splits)
    qed
  qed
qed

text \<open>
  With an entry in the memo, \<open>get\<close> views the bytes it reads under the memoized dtypes,
  whatever the store holds at the metadata keys.
\<close>

lemma get_memoized_dtype:
  assumes "list_all (hashable_key env) keys"
    and "cache w (path, keys) = Some ds"
    and "get_fn path keys kwargs (store w) = (Inr bs, s')"
  shows "get env path keys get_fn kwargs w
           = (map_err (\<lambda>(b, d). frombuffer env b d) (zip bs ds), w\<lparr>store := s'\<rparr>)"
  using assms by (simp add: get_def dtypes_hit)

section \<open>Properties of the bulk functions\<close>

text \<open>
  The memo outlives a change of dtype.  In a fresh process: store an int32 array under
  \<^verbatim>\<open>x\<close>, load it, store a float64 array under \<^verbatim>\<open>x\<close>, load it.  The second load
  returns the bytes of the second array under the dtype of the first.
\<close>

theorem put_get_stale_cache_counterexample:
  "fst (get sample_env ''p'' [PyStr ''x''] core_get no_kwargs
         (world_after_read\<lparr>store :=
            snd (put sample_env core_ensure ''p'' [(PyStr ''x'', float_array)] core_put
                   no_kwargs (store world_after_read))\<rparr>))
     = Inr [NDArray [2] ''abcdefgh'' (Primitive Int32)]
   \<and> dtype_of sample_env float_array = Primitive Float64"
  unfolding world_after_read_eq
  by (simp add: get_def put_def dtypes_def core_get_def core_put_def core_ensure_def
        no_kwargs_def sample_env_def float_array_def sample_frombuffer_def empty_store_def)

text \<open>
  C1, amended.  Let \<open>k\<close> be a key that \<open>extend\<close> accepts and \<open>A\<close> an array whose dtype
  \<open>parse_dtype\<close> reads back from its text and of whose bytes, under that dtype, numpy
  makes the view \<open>V\<close>.  In every state whose memo has no entry for the path and \<open>[k]\<close>,
  or has the dtype of \<open>A\<close> there, \<open>put\<close> of \<open>{k: A}\<close> returns and \<open>get\<close> of \<open>[k]\<close> after it
  returns the one-element list \<open>[V]\<close>: the view of the bytes of \<open>A\<close> under the dtype of
  \<open>A\<close>.  The store is the one of the specification.
\<close>

theorem put_get_roundtrip:
  assumes ext: "extend env k ''.dtype'' = Inr dt_key"
    and hk: "hashable_key env k"
    and rt: "parse_dtype env (render env (dtype_of env A)) = Inr (dtype_of env A)"
    and view: "frombuffer env (tobytes env A) (dtype_of env A) = Inr V"
    and fresh: "cache w (path, [k]) = None \<or> cache w (path, [k]) = Some [dtype_of env A]"
  shows "fst (put env core_ensure path [(k, A)] core_put kwargs (store w)) = Inr ()
       \<and> fst (get env path [k] core_get kwargs'
              (w\<lparr>store := snd (put env core_ensure path [(k, A)] core_put kwargs (store w))\<rparr>))
           = Inr [V]"
proof -
  from ext have ne: "dt_key \<noteq> k" by (rule extend_changes_key) simp
  let ?s1 = "(store w)((path, k) \<mapsto> tobytes env A,
                       (path, dt_key) \<mapsto> render env (dtype_of env A))"
  have p: "put env core_ensure path [(k, A)] core_put kwargs (store w) = (Inr (), ?s1)"
    using ext by (simp add: put_def core_put_def core_ensure_def)
  have g: "core_get path [k] kwargs' ?s1 = (Inr [tobytes env A], ?s1)"
    using ne by (simp add: core_get_def)
  have d: "fst (dtypes env path [k] core_get b kw (w\<lparr>store := ?s1\<rparr>)) = Inr [dtype_of env A]"
    for b kw
    using fresh
  proof
    assume "cache w (path, [k]) = None"
    then show ?thesis using ext hk rt
      by (simp add: dtypes_def dtypes_body_def core_get_def)
  next
    assume "cache w (path, [k]) = Some [dtype_of env A]"
    then show ?thesis using hk by (simp add: dtypes_hit)
  qed
  obtain w' where d':
    "dtypes env path [k] core_get (case lock kwargs' of None \<Rightarrow> False | Some l \<Rightarrow> l)
       (rest kwargs') (w\<lparr>store := ?s1\<rparr>) = (Inr [dtype_of env A], w')"
    using d [of "case lock kwargs' of None \<Rightarrow> False | Some l \<Rightarrow> l" "rest kwargs'"]
    by (metis prod.collapse)
  show ?thesis
    unfolding p using g d' view by (simp add: get_def)
qed

text \<open>In a fresh process, an int32 array stored under \<^verbatim>\<open>x\<close> is loaded back as it was.\<close>

theorem put_get_roundtrip_witness:
  "extend sample_env (PyStr ''x'') ''.dtype'' = Inr (PyStr ''x.dtype'')
   \<and> hashable_key sample_env (PyStr ''x'')
   \<and> parse_dtype sample_env (render sample_env (dtype_of sample_env int_array))
       = Inr (dtype_of sample_env int_array)
   \<and> frombuffer sample_env (tobytes sample_env int_array) (dtype_of sample_env int_array)
       = Inr int_array
   \<and> cache fresh_world (''p'', [PyStr ''x'']) = None
   \<and> fst (put sample_env core_ensure ''p'' [(PyStr ''x'', int_array)] core_put no_kwargs
            (store fresh_world)) = Inr ()
   \<and> fst (get sample_env ''p'' [PyStr ''x''] core_get no_kwargs
            (fresh_world\<lparr>store :=
               snd (put sample_env core_ensure ''p'' [(PyStr ''x'', int_array)] core_put
                      no_kwargs (store fresh_world))\<rparr>))
       = Inr [int_array]"
proof -
  have ext: "extend sample_env (PyStr ''x'') ''.dtype'' = Inr (PyStr ''x.dtype'')"
    by simp
  have hk: "hashable_key sample_env (PyStr ''x'')"
    by simp
  have rt: "parse_dtype sample_env (render sample_env (dtype_of sample_env int_array))
              = Inr (dtype_of sample_env int_array)"
    by (simp add: parse_dtype_def sample_env_def int_array_def prim_of_text_def)
  have view: "frombuffer sample_env (tobytes sample_env int_array)
                (dtype_of sample_env int_array) = Inr int_array"
    by (simp add: sample_env_def int_array_def sample_frombuffer_def)
  have fresh: "cache fresh_world (''p'', [PyStr ''x'']) = None"
    by (simp add: fresh_world_def)
  from fresh have fresh': "cache fresh_world (''p'', [PyStr ''x'']) = None
      \<or> cache fresh_world (''p'', [PyStr ''x'']) = Some [dtype_of sample_env int_array]"
    by simp
  show ?thesis
    using ext hk rt view fresh
      put_get_roundtrip [OF ext hk rt view fresh', of no_kwargs no_kwargs]
    by simp
qed

section \<open>Properties of the incremental object\<close>

text \<open>On a string key, \<^verbatim>\<open>k + '.dtype'\<close> is the extended key.\<close>

lemma py_add_str_key: "py_add env (PyStr k) suffix = extend env (PyStr k) suffix"
  by simp

text \<open>
  C3.  On a tuple key, \<open>extend\<close> gives the metadata key, but \<open>append\<close> computes
  \<^verbatim>\<open>k + '.dtype'\<close>: it raises TypeError at that item and leaves the store as it was,
  with no metadata written and nothing appended.
\<close>

theorem PartdNumpy_append_tuple_key:
  "extend env (PyTuple (ks @ [PyStr k])) ''.dtype''
     = Inr (PyTuple (ks @ [PyStr (k @ ''.dtype'')]))
   \<and> PartdNumpy_append env h ((PyTuple (ks @ [PyStr k]), v) # data) kwargs s
       = (Inl TypeError, s)"
  by (simp add: PartdNumpy_append_def)

text \<open>\<open>_get\<close> never evaluates a stored text: its result does not depend on \<open>py_eval\<close>.\<close>

lemma PartdNumpy_get_ignores_eval:
  "PartdNumpy_get (env\<lparr>py_eval := e\<rparr>) h keys kwargs s = PartdNumpy_get env h keys kwargs s"
proof -
  have ft: "frombuffer_text (env\<lparr>py_eval := e\<rparr>) = frombuffer_text env"
    by (intro ext) (simp add: frombuffer_text_def split: sum.splits)
  show ?thesis
    unfolding PartdNumpy_get_def extend_ignores_eval ft by (rule refl)
qed

text \<open>
  C7.  \<open>_get\<close> hands the stored text to \<^verbatim>\<open>np.frombuffer\<close> without \<open>parse_dtype\<close>.
  After \<open>append\<close> of an array of records under \<^verbatim>\<open>x\<close>, the store holds the text
  \<^verbatim>\<open>[('a', '<i4')]\<close> under \<^verbatim>\<open>x.dtype\<close>; \<open>parse_dtype\<close> reads the dtype back from it,
  \<open>_get\<close> raises TypeError.
\<close>

theorem PartdNumpy_get_unparsed:
  "snd (PartdNumpy_append sample_env (handle_at ''p'') [(PyStr ''x'', record_array)]
          no_kwargs empty_store) (''p'', PyStr ''x.dtype'') = Some ''[('a', '<i4')]''
   \<and> parse_dtype sample_env ''[('a', '<i4')]'' = Inr (dtype_of sample_env record_array)
   \<and> fst (PartdNumpy_get sample_env (handle_at ''p'') [PyStr ''x''] no_kwargs
            (snd (PartdNumpy_append sample_env (handle_at ''p'') [(PyStr ''x'', record_array)]
                    no_kwargs empty_store)))
       = Inl TypeError"
  by (simp add: PartdNumpy_append_def PartdNumpy_get_def handle_at_def sample_env_def
        record_array_def no_kwargs_def empty_store_def render_fields_def core_get_def
        frombuffer_text_def prim_of_text_def parse_dtype_def sample_eval_def
        known_field_lists_def)

text \<open>
  A key of the sequence can be the metadata key of another one.  With an array stored
  under \<^verbatim>\<open>x.dtype\<close>, \<open>delete\<close> of \<^verbatim>\<open>['x', 'x.dtype']\<close> removes the entry \<^verbatim>\<open>x.dtype\<close>, as
  the metadata of \<^verbatim>\<open>x\<close>: the read of \<^verbatim>\<open>x.dtype\<close>, which returned the bytes before, fails.
\<close>

theorem PartdNumpy_delete_collision_counterexample:
  "fst (core_get ''p'' [PyStr ''x.dtype''] no_kwargs dtype_named_entries) = Inr [''abcd'']
   \<and> fst (core_get ''p'' [PyStr ''x.dtype''] no_kwargs
        (snd (PartdNumpy_delete sample_env (handle_at ''p'') [PyStr ''x'', PyStr ''x.dtype'']
                no_kwargs dtype_named_entries)))
      = Inl KeyNotFound"
  by (simp add: core_get_def dtype_named_entries_def PartdNumpy_delete_def handle_at_def
        empty_store_def)

text \<open>
  C8, amended.  When \<open>extend\<close> returns on every key, with \<open>keys2\<close> the extended keys:
  \<open>delete\<close> returns, no entry of the handle's location is left at a key of \<open>keys2\<close>,
  every other entry of the store is as before, and for each key of the sequence that is
  not itself in \<open>keys2\<close> a direct read returns what it returned before the deletion.
  The handle and the store are the ones of the specification.
\<close>

theorem PartdNumpy_delete_frame:
  assumes "map (\<lambda>key. extend env key ''.dtype'') keys = map Inr keys2"
  shows "fst (PartdNumpy_delete env (handle_at path) keys kwargs st) = Inr ()
       \<and> (\<forall>k \<in> set keys2.
            snd (PartdNumpy_delete env (handle_at path) keys kwargs st) (path, k) = None)
       \<and> (\<forall>p k. (p, k) \<notin> {path} \<times> set keys2 \<longrightarrow>
            snd (PartdNumpy_delete env (handle_at path) keys kwargs st) (p, k) = st (p, k))
       \<and> (\<forall>k \<in> set keys. k \<notin> set keys2 \<longrightarrow>
            fst (core_get path [k] kwargs'
                   (snd (PartdNumpy_delete env (handle_at path) keys kwargs st)))
              = fst (core_get path [k] kwargs' st))"
  using map_err_eq_Inr [OF assms]
  by (auto simp: PartdNumpy_delete_def handle_at_def core_get_def split: option.splits)

text \<open>
  With \<^verbatim>\<open>x\<close> and its dtype stored: after \<open>delete\<close> of \<^verbatim>\<open>['x']\<close> the entry \<^verbatim>\<open>x.dtype\<close> is
  gone, and the read of \<^verbatim>\<open>x\<close> still returns its bytes.
\<close>

theorem PartdNumpy_delete_frame_witness:
  "map (\<lambda>key. extend sample_env key ''.dtype'') [PyStr ''x''] = map Inr [PyStr ''x.dtype'']
   \<and> fst (PartdNumpy_delete sample_env (handle_at ''p'') [PyStr ''x''] no_kwargs two_entries)
       = Inr ()
   \<and> snd (PartdNumpy_delete sample_env (handle_at ''p'') [PyStr ''x''] no_kwargs two_entries)
        (''p'', PyStr ''x.dtype'') = None
   \<and> snd (PartdNumpy_delete sample_env (handle_at ''p'') [PyStr ''x''] no_kwargs two_entries)
        (''p'', PyStr ''x'') = Some ''abcd''
   \<and> fst (core_get ''p'' [PyStr ''x''] no_kwargs
        (snd (PartdNumpy_delete sample_env (handle_at ''p'') [PyStr ''x''] no_kwargs
                two_entries)))
       = Inr [''abcd'']"
proof -
  have h: "map (\<lambda>key. extend sample_env key ''.dtype'') [PyStr ''x'']
             = map Inr [PyStr ''x.dtype'']"
    by simp
  have g: "fst (core_get ''p'' [PyStr ''x''] no_kwargs two_entries) = Inr [''abcd'']"
    by (simp add: core_get_def two_entries_def)
  show ?thesis
    using h g PartdNumpy_delete_frame [OF h, of "''p''" no_kwargs two_entries no_kwargs]
    by (simp add: two_entries_def)
qed

end
